theory Spec2Isabelle
  imports Complex_Main
begin

section \<open>Metrics helpers of dashboard.js\<close>

text \<open>
  The gauge helpers are modelled over the real numbers: they only divide by a constant,
  multiply, add and compare, and their result is a continuous width. \<open>Math.round\<close>
  rounds to the nearest integer, a tie going up.
\<close>

definition Math_round :: "real \<Rightarrow> int" where
  "Math_round x = \<lfloor>x + 1 / 2\<rfloor>"

datatype metric_color = low | moderate | high

text \<open>dashboard.js, lines 215 to 219.\<close>

definition getMetricColor :: "real \<Rightarrow> metric_color" where
  "getMetricColor v = (if v < 50 then low else if v < 80 then moderate else high)"

text \<open>dashboard.js, lines 221 to 224: \<^verbatim>\<open>Math.max(5, (value / 100) * 95 + 5)\<close>.\<close>

definition getGaugeWidth :: "real \<Rightarrow> real" where
  "getGaugeWidth v = max 5 ((v / 100) * 95 + 5)"

subsection \<open>Double precision\<close>

text \<open>
  The RAM display rounds its results to integers, so the rounding of each division and
  multiplication decides the result at a tie. A JavaScript number is a double: 53
  significant bits, the exponent of a normal number at least \<open>- 1022\<close>, smaller
  numbers on the fixed grid of \<open>2\<close> to the \<open>- 1074\<close>. A division or a
  multiplication gives the exact result rounded to the nearest double, a tie going to
  the even significand. Overflow to infinity and NaN are not modelled: the numbers are
  finite and the results stay below \<open>2\<close> to the \<open>1024\<close>.
\<close>

definition pow2 :: "int \<Rightarrow> real" where
  "pow2 e = 2 powr of_int e"

definition round_even :: "real \<Rightarrow> int" where
  "round_even y =
     (if y - of_int \<lfloor>y\<rfloor> = 1 / 2 then (if even \<lfloor>y\<rfloor> then \<lfloor>y\<rfloor> else \<lfloor>y\<rfloor> + 1)
      else \<lfloor>y + 1 / 2\<rfloor>)"

text \<open>The exponent of the last significant bit of the doubles around \<open>x\<close>.\<close>

definition ulp_exponent :: "real \<Rightarrow> int" where
  "ulp_exponent x = max \<lfloor>log 2 \<bar>x\<bar>\<rfloor> (- 1022) - 52"

definition double_round :: "real \<Rightarrow> real" where
  "double_round x =
     (if x = 0 then 0
      else of_int (round_even (x / pow2 (ulp_exponent x))) * pow2 (ulp_exponent x))"

definition is_double :: "real \<Rightarrow> bool" where
  "is_double x = (double_round x = x)"

definition js_div :: "real \<Rightarrow> real \<Rightarrow> real" where
  "js_div a b = double_round (a / b)"

definition js_mul :: "real \<Rightarrow> real \<Rightarrow> real" where
  "js_mul a b = double_round (a * b)"

text \<open>dashboard.js, lines 227 to 232.\<close>

record ram_display =
  memMb :: int
  maxmemMb :: int
  pct :: int

definition calculateRamDisplay :: "real \<Rightarrow> real \<Rightarrow> ram_display" where
  "calculateRamDisplay memBytes maxmemBytes =
     \<lparr> memMb = Math_round (js_div (js_div memBytes 1024) 1024),
       maxmemMb = Math_round (js_div (js_div maxmemBytes 1024) 1024),
       pct = (if maxmemBytes > 0
              then Math_round (js_mul (js_div memBytes maxmemBytes) 100) else 0) \<rparr>"





section \<open>The dashboard page\<close>

text \<open>
  The repository holds three versions of the dashboard script: the two documents of
  static/js/dashboard.js (the first with automatic node selection and the disk check, the
  second with a manual node picker; names suffixed \<open>_v2\<close> below) and an older
  one without clusters (names suffixed \<open>_p0\<close>). The functions \<open>controlVm\<close>
  and \<open>confirmDelete\<close> of the two documents of dashboard.js are the same code.

  A handler that awaits \<open>fetch\<close> is modelled in two parts: the part that runs
  up to the request, which puts the request and the awaiting continuation into the list
  of pending requests, and the part that runs when the response arrives. The page
  records, in order, every prompt, alert, console report and network call. Texts shown
  to the operator are named by the template they are built from. Writes that only
  change labels, spinners and button states are left out.
\<close>

datatype action = Start | Shutdown | Delete

text \<open>An entry of the VM list; \<open>vm_cpu\<close> is \<open>None\<close> when the entry has no
  \<open>cpu\<close> or one that is not a number.\<close>

record vm =
  vm_vmid :: int
  vm_name :: string
  vm_node :: string
  vm_status :: string
  vm_cpu :: "real option"

text \<open>
  The body of a response as \<open>res.json()\<close> reads it: an object with a list
  under \<open>vms\<close>, a bare list, or an object with neither a \<open>vms\<close> entry
  nor a length. A response is a rejected \<open>fetch\<close> with its message, or a reply
  with \<open>res.ok\<close>, \<open>res.text()\<close> and the parsed body (\<open>None\<close> when the
  body is not JSON and \<open>res.json()\<close> throws).
\<close>

datatype json = JsonVmsObject "vm list" | JsonVmsArray "vm list" | JsonOther

datatype response = NetworkError string | HttpResponse bool string "json option"

datatype err =
    Thrown_text string
  | Thrown_network string
  | Thrown_json
  | Thrown_render
  | Thrown_cluster_required
  | Thrown_node_required

datatype message =
    ControlPrompt int action
  | ControlDone action
  | ControlError action err
  | ControlFailed action string
  | DeletePrompt string int
  | DeleteRunningWarning string
  | DeleteRunningWarningThenPrompt string int
  | DiskShrinkNotice int int
  | DiskUnchangedPrompt int
  | ConfigDone
  | ConfigError err
  | CreateDone
  | CreateError err

text \<open>
  The configuration form: the hidden node and VM identifier fields and the requested
  disk size as \<open>parseInt\<close> reads the \<open>resize\<close> field (\<open>None\<close> for NaN).
\<close>

record config_form =
  form_node :: string
  form_vmid :: string
  form_resize :: "int option"

text \<open>
  A request is named by its endpoint and what it is about: the cluster of a list
  request, the action, cluster, node and VM identifier of a control request, the form a
  create or configuration request is built from (the first document of dashboard.js
  re-encodes the \<open>ssh_public_key\<close> entry before sending).
\<close>

datatype request =
    GetVms string
  | GetVmsAll
  | PostControl action "string option" string int
  | PostCreate "string \<rightharpoonup> string"
  | PostConfig config_form

datatype continuation =
    K_loadVms string
  | K_loadVms_v2 string
  | K_loadVms_p0
  | K_controlVm action
  | K_controlVm_p0 action
  | K_handleVmCreate string
  | K_handleVmCreate_v2 string string
  | K_handleVmCreate_p0
  | K_configForm_submit
  | K_configForm_onsubmit_v2

datatype event =
    Confirm message bool
  | Alert message
  | Fetch request
  | ConsoleLog_skip
  | ConsoleError err

datatype vm_list_html =
    VmRows string "vm list"
  | VmRows_p0 "vm list"
  | NoVmsNotice
  | LoadFailedNotice
  | SelectClusterNotice
  | InitialHtml

record stats =
  total_vms :: nat
  running_vms :: nat
  stopped_vms :: nat

record page =
  clusterSelect :: string
  nodeZoneSelect :: string
  currentCluster :: "string option"
  isCreating :: bool
  currentSize :: "int option"
  modalActive :: bool
  vmList :: vm_list_html
  counts :: stats
  pending :: "(request \<times> continuation) list"
  trace :: "event list"

definition page0 :: page where
  "page0 = \<lparr> clusterSelect = [], nodeZoneSelect = [], currentCluster = None,
     isCreating = False, currentSize = None, modalActive = False, vmList = InitialHtml,
     counts = \<lparr> total_vms = 0, running_vms = 0, stopped_vms = 0 \<rparr>,
     pending = [], trace = [] \<rparr>"

definition emit :: "event \<Rightarrow> page \<Rightarrow> page" where
  "emit e p = p\<lparr> trace := trace p @ [e] \<rparr>"

definition fetch :: "request \<Rightarrow> continuation \<Rightarrow> page \<Rightarrow> page" where
  "fetch req k p = p\<lparr> pending := pending p @ [(req, k)], trace := trace p @ [Fetch req] \<rparr>"

text \<open>The prompts shown and the network calls made, read off a list of events.\<close>

fun prompts :: "event list \<Rightarrow> message list" where
  "prompts [] = []"
| "prompts (Confirm m b # es) = m # prompts es"
| "prompts (e # es) = prompts es"

fun network_calls :: "event list \<Rightarrow> request list" where
  "network_calls [] = []"
| "network_calls (Fetch r # es) = r # network_calls es"
| "network_calls (e # es) = network_calls es"

text \<open>The events a handler added to the page it ran on.\<close>

definition new_events :: "page \<Rightarrow> page \<Rightarrow> event list" where
  "new_events p p' = drop (length (trace p)) (trace p')"

text \<open>A form entry or a select value that JavaScript's \<open>!\<close> takes for missing.\<close>

definition falsy :: "string option \<Rightarrow> bool" where
  "falsy v = (v = None \<or> v = Some [])"

subsection \<open>Statistics and the VM list\<close>

text \<open>dashboard.js, lines 15 to 25; a value that is not an array counts as the empty list.\<close>

definition updateStats :: "vm list option \<Rightarrow> page \<Rightarrow> page" where
  "updateStats vms p =
     (let vmsArray = (case vms of Some l \<Rightarrow> l | None \<Rightarrow> []) in
      p\<lparr> counts := \<lparr> total_vms = length vmsArray,
            running_vms = length (filter (\<lambda>v. vm_status v = ''running'') vmsArray),
            stopped_vms = length (filter (\<lambda>v. vm_status v = ''stopped'') vmsArray) \<rparr> \<rparr>)"

text \<open>\<^verbatim>\<open>data.vms || data\<close>: the list, or \<open>None\<close> for a value that is no array.\<close>

fun vms_of :: "json \<Rightarrow> vm list option" where
  "vms_of (JsonVmsObject l) = Some l"
| "vms_of (JsonVmsArray l) = Some l"
| "vms_of JsonOther = None"

text \<open>dashboard.js, lines 235 to 338, up to the request.\<close>

definition loadVms :: "page \<Rightarrow> page" where
  "loadVms p =
     (let clusterName = clusterSelect p in
      if clusterName = [] then emit ConsoleLog_skip p
      else fetch (GetVms clusterName) (K_loadVms clusterName)
             (p\<lparr> currentCluster := Some clusterName \<rparr>))"

text \<open>The catch block, lines 332 to 337.\<close>

definition loadVms_catch :: "err \<Rightarrow> page \<Rightarrow> page" where
  "loadVms_catch e p = (emit (ConsoleError e) p)\<lparr> vmList := LoadFailedNotice \<rparr>"

text \<open>
  Rendering a row calls \<^verbatim>\<open>vm.cpu.toFixed(0)\<close> (line 292), which throws for an entry
  without a numeric \<open>cpu\<close>; the rows are built only for a list that is not empty.
\<close>

definition render_throws :: "vm list option \<Rightarrow> bool" where
  "render_throws vms = (case vms of None \<Rightarrow> False | Some l \<Rightarrow> list_ex (\<lambda>v. vm_cpu v = None) l)"

text \<open>Lines 246 to 331, when the response arrives. A row that throws leaves the list
  unassigned and the statistics untouched, and the catch block runs.\<close>

definition loadVms_response :: "string \<Rightarrow> response \<Rightarrow> page \<Rightarrow> page" where
  "loadVms_response clusterName r p =
     (case r of
        NetworkError m \<Rightarrow> loadVms_catch (Thrown_network m) p
      | HttpResponse ok text js \<Rightarrow>
          if \<not> ok then loadVms_catch (Thrown_text text) p
          else (case js of
                  None \<Rightarrow> loadVms_catch Thrown_json p
                | Some data \<Rightarrow>
                    (let vms = vms_of data in
                     if render_throws vms then loadVms_catch Thrown_render p
                     else updateStats vms
                       (p\<lparr> vmList := (case vms of
                                         Some (v # vs) \<Rightarrow> VmRows clusterName (v # vs)
                                       | _ \<Rightarrow> NoVmsNotice) \<rparr>))))"

text \<open>The older script, lines 82 to 153: no cluster, no check of \<open>res.ok\<close>, and a
  catch block that only reports to the console.\<close>

definition loadVms_p0 :: "page \<Rightarrow> page" where
  "loadVms_p0 p = fetch GetVmsAll K_loadVms_p0 p"

definition loadVms_response_p0 :: "response \<Rightarrow> page \<Rightarrow> page" where
  "loadVms_response_p0 r p =
     (case r of
        NetworkError m \<Rightarrow> emit (ConsoleError (Thrown_network m)) p
      | HttpResponse ok text js \<Rightarrow>
          (case js of
             None \<Rightarrow> emit (ConsoleError Thrown_json) p
           | Some data \<Rightarrow>
               (let vms = vms_of data in
                updateStats vms
                  (p\<lparr> vmList := (case vms of
                                    Some (v # vs) \<Rightarrow> VmRows_p0 (v # vs)
                                  | _ \<Rightarrow> NoVmsNotice) \<rparr>))))"

text \<open>dashboard.js, lines 122 to 154, run by the change of the cluster select, which
  holds the new value by then (lines 347 to 349).\<close>

definition onClusterChange :: "string \<Rightarrow> page \<Rightarrow> page" where
  "onClusterChange clusterName p =
     (let p1 = p\<lparr> currentCluster := Some clusterName \<rparr> in
      if clusterName \<noteq> [] then loadVms p1
      else updateStats (Some []) (p1\<lparr> vmList := SelectClusterNotice \<rparr>))"

definition clusterSelect_change :: "string \<Rightarrow> page \<Rightarrow> page" where
  "clusterSelect_change v p = onClusterChange v (p\<lparr> clusterSelect := v \<rparr>)"

text \<open>The second document of dashboard.js, lines 654 to 712: the same start, no check
  of \<open>res.ok\<close>.\<close>

definition loadVms_v2 :: "page \<Rightarrow> page" where
  "loadVms_v2 p =
     (let clusterName = clusterSelect p in
      if clusterName = [] then emit ConsoleLog_skip p
      else fetch (GetVms clusterName) (K_loadVms_v2 clusterName)
             (p\<lparr> currentCluster := Some clusterName \<rparr>))"

definition loadVms_response_v2 :: "string \<Rightarrow> response \<Rightarrow> page \<Rightarrow> page" where
  "loadVms_response_v2 clusterName r p =
     (case r of
        NetworkError m \<Rightarrow> loadVms_catch (Thrown_network m) p
      | HttpResponse ok text js \<Rightarrow>
          (case js of
             None \<Rightarrow> loadVms_catch Thrown_json p
           | Some data \<Rightarrow>
               (let vms = vms_of data in
                updateStats vms
                  (p\<lparr> vmList := (case vms of
                                    Some (v # vs) \<Rightarrow> VmRows clusterName (v # vs)
                                  | _ \<Rightarrow> NoVmsNotice) \<rparr>))))"

subsection \<open>Start, shutdown and delete\<close>

text \<open>dashboard.js, lines 28 to 54 (and 479 to 506), up to the request. The operator
  is the function that answers a prompt.\<close>

definition controlVm ::
  "(message \<Rightarrow> bool) \<Rightarrow> string \<Rightarrow> string \<Rightarrow> int \<Rightarrow> action \<Rightarrow> page \<Rightarrow> page" where
  "controlVm operator clusterName node vmid action p =
     (let needsConfirm = (action \<noteq> Delete);
          m = ControlPrompt vmid action;
          p1 = (if needsConfirm then emit (Confirm m (operator m)) p else p)
      in if needsConfirm \<and> \<not> operator m then p1
         else fetch (PostControl action (Some clusterName) node vmid) (K_controlVm action) p1)"

definition controlVm_response :: "action \<Rightarrow> response \<Rightarrow> page \<Rightarrow> page" where
  "controlVm_response action r p =
     (case r of
        NetworkError m \<Rightarrow> emit (Alert (ControlError action (Thrown_network m))) p
      | HttpResponse ok text js \<Rightarrow>
          if \<not> ok then emit (Alert (ControlError action (Thrown_text text))) p
          else loadVms (emit (Alert (ControlDone action)) p))"

text \<open>dashboard.js, lines 57 to 67 (and 508 to 520).\<close>

definition confirmDelete ::
  "(message \<Rightarrow> bool) \<Rightarrow> string \<Rightarrow> string \<Rightarrow> int \<Rightarrow> string \<Rightarrow> string \<Rightarrow> page \<Rightarrow> page" where
  "confirmDelete operator clusterName node vmid name status p =
     (let message = (if status = ''running'' then DeleteRunningWarning name
                     else DeletePrompt name vmid);
          p1 = emit (Confirm message (operator message)) p
      in if operator message then controlVm operator clusterName node vmid Delete p1 else p1)"

text \<open>The older script, lines 177 to 204 and 222 to 232: \<open>controlVm\<close> prompts for
  every action.\<close>

definition controlVm_p0 ::
  "(message \<Rightarrow> bool) \<Rightarrow> string \<Rightarrow> int \<Rightarrow> action \<Rightarrow> page \<Rightarrow> page" where
  "controlVm_p0 operator node vmid action p =
     (let m = ControlPrompt vmid action;
          p1 = emit (Confirm m (operator m)) p
      in if \<not> operator m then p1
         else fetch (PostControl action None node vmid) (K_controlVm_p0 action) p1)"

definition controlVm_response_p0 :: "action \<Rightarrow> response \<Rightarrow> page \<Rightarrow> page" where
  "controlVm_response_p0 action r p =
     (case r of
        NetworkError m \<Rightarrow> emit (Alert (ControlError action (Thrown_network m))) p
      | HttpResponse ok text js \<Rightarrow>
          if \<not> ok then emit (Alert (ControlFailed action text)) p
          else loadVms_p0 (emit (Alert (ControlDone action)) p))"

definition confirmDelete_p0 ::
  "(message \<Rightarrow> bool) \<Rightarrow> string \<Rightarrow> int \<Rightarrow> string \<Rightarrow> string \<Rightarrow> page \<Rightarrow> page" where
  "confirmDelete_p0 operator node vmid name status p =
     (let message = (if status = ''running'' then DeleteRunningWarningThenPrompt name vmid
                     else DeletePrompt name vmid);
          p1 = emit (Confirm message (operator message)) p
      in if \<not> operator message then p1 else controlVm_p0 operator node vmid Delete p1)"

subsection \<open>Creating a VM\<close>

text \<open>The finally block shared by the three versions.\<close>

definition handleVmCreate_finally :: "page \<Rightarrow> page" where
  "handleVmCreate_finally p = p\<lparr> isCreating := False \<rparr>"

text \<open>dashboard.js, lines 157 to 213: the node is chosen by the backend, the form has
  no node field to check.\<close>

definition handleVmCreate_catch :: "err \<Rightarrow> page \<Rightarrow> page" where
  "handleVmCreate_catch e p = emit (Alert (CreateError e)) (emit (ConsoleError e) p)"

definition handleVmCreate :: "(string \<rightharpoonup> string) \<Rightarrow> page \<Rightarrow> page" where
  "handleVmCreate formData p =
     (if isCreating p then p
      else
        (let clusterName = clusterSelect p;
             p1 = p\<lparr> isCreating := True \<rparr>
         in if falsy (formData ''cluster_name'')
            then handleVmCreate_finally (handleVmCreate_catch Thrown_cluster_required p1)
            else fetch (PostCreate formData) (K_handleVmCreate clusterName) p1))"

definition handleVmCreate_response :: "string \<Rightarrow> response \<Rightarrow> page \<Rightarrow> page" where
  "handleVmCreate_response clusterName r p =
     handleVmCreate_finally
       (case r of
          NetworkError m \<Rightarrow> handleVmCreate_catch (Thrown_network m) p
        | HttpResponse ok text js \<Rightarrow>
            if \<not> ok then handleVmCreate_catch (Thrown_text text) p
            else (case js of
                    None \<Rightarrow> handleVmCreate_catch Thrown_json p
                  | Some result \<Rightarrow>
                      loadVms ((emit (Alert CreateDone) p)\<lparr> clusterSelect := clusterName \<rparr>)))"

text \<open>The second document of dashboard.js, lines 603 to 651: cluster and node are both
  required.\<close>

definition handleVmCreate_v2 :: "(string \<rightharpoonup> string) \<Rightarrow> page \<Rightarrow> page" where
  "handleVmCreate_v2 formData p =
     (if isCreating p then p
      else
        (let clusterName = clusterSelect p;
             nodeZone = nodeZoneSelect p;
             p1 = p\<lparr> isCreating := True \<rparr>
         in if falsy (formData ''cluster_name'')
            then handleVmCreate_finally (emit (Alert (CreateError Thrown_cluster_required)) p1)
            else if falsy (formData ''node_zone'')
            then handleVmCreate_finally (emit (Alert (CreateError Thrown_node_required)) p1)
            else fetch (PostCreate formData) (K_handleVmCreate_v2 clusterName nodeZone) p1))"

definition handleVmCreate_response_v2 :: "string \<Rightarrow> string \<Rightarrow> response \<Rightarrow> page \<Rightarrow> page" where
  "handleVmCreate_response_v2 clusterName nodeZone r p =
     handleVmCreate_finally
       (case r of
          NetworkError m \<Rightarrow> emit (Alert (CreateError (Thrown_network m))) p
        | HttpResponse ok text js \<Rightarrow>
            if \<not> ok then emit (Alert (CreateError (Thrown_text text))) p
            else (case js of
                    None \<Rightarrow> emit (Alert (CreateError Thrown_json)) p
                  | Some result \<Rightarrow>
                      loadVms_v2 ((emit (Alert CreateDone) p)
                        \<lparr> clusterSelect := clusterName, nodeZoneSelect := nodeZone \<rparr>)))"

text \<open>The older script, lines 35 to 79: only the node is required; the form is reset
  after a success, the node select going back to its empty first option.\<close>

definition handleVmCreate_p0 :: "(string \<rightharpoonup> string) \<Rightarrow> page \<Rightarrow> page" where
  "handleVmCreate_p0 formData p =
     (if isCreating p then p
      else
        (let p1 = p\<lparr> isCreating := True \<rparr>
         in if falsy (formData ''node_zone'')
            then handleVmCreate_finally (emit (Alert (CreateError Thrown_node_required)) p1)
            else fetch (PostCreate formData) K_handleVmCreate_p0 p1))"

definition handleVmCreate_response_p0 :: "response \<Rightarrow> page \<Rightarrow> page" where
  "handleVmCreate_response_p0 r p =
     handleVmCreate_finally
       (case r of
          NetworkError m \<Rightarrow> emit (Alert (CreateError (Thrown_network m))) p
        | HttpResponse ok text js \<Rightarrow>
            if \<not> ok then emit (Alert (CreateError (Thrown_text text))) p
            else (case js of
                    None \<Rightarrow> emit (Alert (CreateError Thrown_json)) p
                  | Some result \<Rightarrow>
                      loadVms_p0 ((emit (Alert CreateDone) p)\<lparr> nodeZoneSelect := [] \<rparr>)))"

subsection \<open>Reconfiguring a VM\<close>

text \<open>dashboard.js, lines 116 to 119.\<close>

definition closeConfigModal :: "page \<Rightarrow> page" where
  "closeConfigModal p = p\<lparr> modalActive := False \<rparr>"

text \<open>
  dashboard.js, lines 353 to 421, up to the request. The page's \<open>currentSize\<close> is
  the \<open>data-current-size\<close> attribute of the disk field as \<open>parseInt\<close> reads
  it (\<open>None\<close> for NaN, also when the attribute was never set);
  \<^verbatim>\<open>parseInt(...) || 20\<close> replaces NaN and 0 by 20. A comparison with NaN is false.
\<close>

definition currentDiskSize :: "page \<Rightarrow> int" where
  "currentDiskSize p = (case currentSize p of None \<Rightarrow> 20 | Some c \<Rightarrow> if c = 0 then 20 else c)"

definition configForm_submit :: "(message \<Rightarrow> bool) \<Rightarrow> config_form \<Rightarrow> page \<Rightarrow> page" where
  "configForm_submit operator formData p =
     (let currentDiskSize = currentDiskSize p;
          newDiskSize = form_resize formData
      in case newDiskSize of
           None \<Rightarrow> fetch (PostConfig formData) K_configForm_submit p
         | Some n \<Rightarrow>
             if n < currentDiskSize then emit (Alert (DiskShrinkNotice currentDiskSize n)) p
             else if n = currentDiskSize then
               (let m = DiskUnchangedPrompt currentDiskSize;
                    p1 = emit (Confirm m (operator m)) p
                in if \<not> operator m then p1
                   else fetch (PostConfig formData) K_configForm_submit p1)
             else fetch (PostConfig formData) K_configForm_submit p)"

definition configForm_submit_response :: "response \<Rightarrow> page \<Rightarrow> page" where
  "configForm_submit_response r p =
     (case r of
        NetworkError m \<Rightarrow>
          emit (Alert (ConfigError (Thrown_network m))) (emit (ConsoleError (Thrown_network m)) p)
      | HttpResponse ok text js \<Rightarrow>
          if \<not> ok
          then emit (Alert (ConfigError (Thrown_text text))) (emit (ConsoleError (Thrown_text text)) p)
          else loadVms (closeConfigModal (emit (Alert ConfigDone) p)))"

text \<open>The second document of dashboard.js, lines 715 to 736: the form is sent as it is.\<close>

definition configForm_onsubmit_v2 :: "config_form \<Rightarrow> page \<Rightarrow> page" where
  "configForm_onsubmit_v2 formData p = fetch (PostConfig formData) K_configForm_onsubmit_v2 p"

definition configForm_onsubmit_response_v2 :: "response \<Rightarrow> page \<Rightarrow> page" where
  "configForm_onsubmit_response_v2 r p =
     (case r of
        NetworkError m \<Rightarrow> emit (Alert (ConfigError (Thrown_network m))) p
      | HttpResponse ok text js \<Rightarrow>
          if \<not> ok then emit (Alert (ConfigError (Thrown_text text))) p
          else loadVms_v2 (closeConfigModal (emit (Alert ConfigDone) p)))"

subsection \<open>Arrival of a response\<close>

fun resume :: "continuation \<Rightarrow> response \<Rightarrow> page \<Rightarrow> page" where
  "resume (K_loadVms c) r p = loadVms_response c r p"
| "resume (K_loadVms_v2 c) r p = loadVms_response_v2 c r p"
| "resume K_loadVms_p0 r p = loadVms_response_p0 r p"
| "resume (K_controlVm a) r p = controlVm_response a r p"
| "resume (K_controlVm_p0 a) r p = controlVm_response_p0 a r p"
| "resume (K_handleVmCreate c) r p = handleVmCreate_response c r p"
| "resume (K_handleVmCreate_v2 c n) r p = handleVmCreate_response_v2 c n r p"
| "resume K_handleVmCreate_p0 r p = handleVmCreate_response_p0 r p"
| "resume K_configForm_submit r p = configForm_submit_response r p"
| "resume K_configForm_onsubmit_v2 r p = configForm_onsubmit_response_v2 r p"

text \<open>The response to the pending request at position \<open>i\<close> arrives: the request
  leaves the pending list and its continuation runs.\<close>

definition deliver :: "nat \<Rightarrow> response \<Rightarrow> page \<Rightarrow> page" where
  "deliver i r p =
     (if i < length (pending p)
      then resume (snd (pending p ! i)) r
             (p\<lparr> pending := take i (pending p) @ drop (Suc i) (pending p) \<rparr>)
      else p)"

text \<open>The requests in flight that start, stop or delete the VM with a given identifier.\<close>

fun mutates :: "int \<Rightarrow> request \<times> continuation \<Rightarrow> bool" where
  "mutates v (PostControl a c n w, k) = (w = v)"
| "mutates v (r, k) = False"

definition in_flight :: "int \<Rightarrow> page \<Rightarrow> (request \<times> continuation) list" where
  "in_flight v p = filter (mutates v) (pending p)"

section \<open>Example inputs\<close>

text \<open>An operator who accepts every prompt, one who declines every prompt, and the
  pages, forms and VM lists the examples below run on.\<close>

definition always_confirm :: "message \<Rightarrow> bool" where
  "always_confirm m = True"

definition never_confirm :: "message \<Rightarrow> bool" where
  "never_confirm m = False"

definition vms_a :: "vm list" where
  "vms_a = [\<lparr> vm_vmid = 101, vm_name = ''web'', vm_node = ''pve1'', vm_status = ''running'',
               vm_cpu = Some 12 \<rparr>]"

definition vms_b :: "vm list" where
  "vms_b = [\<lparr> vm_vmid = 202, vm_name = ''db'', vm_node = ''pve2'', vm_status = ''stopped'',
               vm_cpu = Some 0 \<rparr>]"

definition ok_with :: "vm list \<Rightarrow> response" where
  "ok_with vms = HttpResponse True [] (Some (JsonVmsObject vms))"

definition page_a :: page where
  "page_a = page0\<lparr> clusterSelect := ''cluster_a'' \<rparr>"

definition form_disk :: "int \<Rightarrow> config_form" where
  "form_disk n = \<lparr> form_node = ''pve1'', form_vmid = ''101'', form_resize = Some n \<rparr>"

definition form_cluster_only :: "string \<rightharpoonup> string" where
  "form_cluster_only = [''cluster_name'' \<mapsto> ''cluster_a'']"

definition form_node_only :: "string \<rightharpoonup> string" where
  "form_node_only = [''node_zone'' \<mapsto> ''pve1'']"

definition form_cluster_and_node :: "string \<rightharpoonup> string" where
  "form_cluster_and_node = [''cluster_name'' \<mapsto> ''cluster_a'', ''node_zone'' \<mapsto> ''pve1'']"

section \<open>Failed refreshes\<close>

text \<open>
  A refresh fails when the \<open>fetch\<close> is rejected, when the response is not ok, when
  its body is not JSON, or when rendering its list throws.
\<close>

fun refresh_fails :: "response \<Rightarrow> bool" where
  "refresh_fails (NetworkError e) = True"
| "refresh_fails (HttpResponse ok t None) = True"
| "refresh_fails (HttpResponse ok t (Some data)) = (\<not> ok \<or> render_throws (vms_of data))"

section \<open>Properties of the metrics helpers\<close>





text \<open>
  Claim C8: on the interval from 0 to 100 the gauge width lies between 5 and 100 and is
  monotonically non-decreasing.
\<close>

theorem C8_gaugeWidth_range_and_monotone:
  "(0 \<le> percent \<and> percent \<le> 100 \<longrightarrow> 5 \<le> getGaugeWidth percent \<and> getGaugeWidth percent \<le> 100) \<and>
   (0 \<le> p1 \<and> p1 \<le> p2 \<and> p2 \<le> 100 \<longrightarrow> getGaugeWidth p1 \<le> getGaugeWidth p2)"
  by (auto simp: getGaugeWidth_def max_def)

theorem C8_gaugeWidth_range_and_monotone_witness:
  "5 \<le> getGaugeWidth 40 \<and> getGaugeWidth 40 \<le> 100 \<and> getGaugeWidth 20 \<le> getGaugeWidth 60 \<and>
   getGaugeWidth 40 = 43"
  using C8_gaugeWidth_range_and_monotone [of 40 20 60]
  by (simp add: getGaugeWidth_def)

subsection \<open>Rounding to doubles\<close>

text \<open>
  Facts about \<open>double_round\<close>: a number with a significand below \<open>2 ^ 53\<close> and an
  exponent on the grid is a double and is returned unchanged; a result below the
  smallest normal number stays at most that; dividing a double by 1024 is exact unless
  the quotient falls below the smallest normal number.
\<close>

lemma pow2_pos [simp]: "0 < pow2 e"
  by (simp add: pow2_def)

lemma pow2_nonzero [simp]: "pow2 e \<noteq> 0"
  by (simp add: pow2_def)

lemma abs_pow2 [simp]: "\<bar>pow2 e\<bar> = pow2 e"
  by (simp add: pow2_def)

lemma pow2_add: "pow2 (a + b) = pow2 a * pow2 b"
  by (simp add: pow2_def powr_add)

lemma pow2_less_iff [simp]: "pow2 a < pow2 b \<longleftrightarrow> a < b"
  by (simp add: pow2_def)


lemma pow2_nat: "pow2 (int n) = 2 ^ n"
  by (simp add: pow2_def powr_realpow)

lemma pow2_0 [simp]: "pow2 0 = 1"
  by (simp add: pow2_def)

lemma round_even_of_int: "round_even (of_int n) = n"
  by (simp add: round_even_def)

lemma floor_log_bounds:
  assumes "x \<noteq> 0"
  shows "pow2 \<lfloor>log 2 \<bar>x\<bar>\<rfloor> \<le> \<bar>x\<bar>" and "\<bar>x\<bar> < pow2 (\<lfloor>log 2 \<bar>x\<bar>\<rfloor> + 1)"
proof -
  have pos: "0 < \<bar>x\<bar>" using assms by simp
  show "pow2 \<lfloor>log 2 \<bar>x\<bar>\<rfloor> \<le> \<bar>x\<bar>" and "\<bar>x\<bar> < pow2 (\<lfloor>log 2 \<bar>x\<bar>\<rfloor> + 1)"
    unfolding pow2_def
    using floor_log_eq_powr_iff [OF pos, of 2 "\<lfloor>log 2 \<bar>x\<bar>\<rfloor>"] by simp_all
qed

lemma floor_log_unique:
  assumes "pow2 e \<le> \<bar>x\<bar>" and "\<bar>x\<bar> < pow2 (e + 1)"
  shows "\<lfloor>log 2 \<bar>x\<bar>\<rfloor> = e"
proof -
  have "0 < pow2 e" by simp
  then have "0 < \<bar>x\<bar>" using assms(1) by linarith
  then show ?thesis
    using assms unfolding pow2_def by (simp add: floor_log_eq_powr_iff)
qed

lemma ulp_exponent_eq:
  "pow2 e \<le> \<bar>x\<bar> \<Longrightarrow> \<bar>x\<bar> < pow2 (e + 1) \<Longrightarrow> ulp_exponent x = max e (- 1022) - 52"
  by (simp add: ulp_exponent_def floor_log_unique)

lemma double_round_representable:
  assumes "\<bar>k\<bar> < 2 ^ 53" and "- 1074 \<le> j"
  shows "double_round (of_int k * pow2 j) = of_int k * pow2 j"
proof (cases "k = 0")
  case True
  then show ?thesis by (simp add: double_round_def)
next
  case False
  define x :: real where "x = of_int k * pow2 j"
  have x0: "x \<noteq> 0" using False by (simp add: x_def)
  define u where "u = ulp_exponent x"
  have "u \<le> j"
  proof (cases "\<lfloor>log 2 \<bar>x\<bar>\<rfloor> \<le> - 1022")
    case True
    then show ?thesis using assms(2) by (simp add: u_def ulp_exponent_def max_def)
  next
    case False
    have "(of_int \<bar>k\<bar> :: real) < of_int (2 ^ 53)" using assms(1) by (simp only: of_int_less_iff)
    then have "(of_int \<bar>k\<bar> :: real) < pow2 53" using pow2_nat [of 53] by simp
    then have "of_int \<bar>k\<bar> * pow2 j < pow2 53 * pow2 j" by simp
    then have "\<bar>x\<bar> < pow2 (53 + j)" by (simp add: x_def abs_mult pow2_add)
    moreover have "pow2 \<lfloor>log 2 \<bar>x\<bar>\<rfloor> \<le> \<bar>x\<bar>" using floor_log_bounds(1) [OF x0] .
    ultimately have "pow2 \<lfloor>log 2 \<bar>x\<bar>\<rfloor> < pow2 (53 + j)" by linarith
    then have "\<lfloor>log 2 \<bar>x\<bar>\<rfloor> < 53 + j" by (simp only: pow2_less_iff)
    then show ?thesis using False by (simp add: u_def ulp_exponent_def max_def)
  qed
  then have "j = u + int (nat (j - u))" by simp
  then obtain n where n: "j = u + int n" ..
  have "x / pow2 u = of_int k * pow2 (int n)"
    by (simp add: x_def n pow2_add)
  also have "\<dots> = of_int (k * 2 ^ n)"
    by (simp add: pow2_nat)
  finally have q: "x / pow2 u = of_int (k * 2 ^ n)" .
  have "double_round x = of_int (k * 2 ^ n) * pow2 u"
    using x0 by (simp add: double_round_def u_def [symmetric] q round_even_of_int del: of_int_mult of_int_power)
  also have "\<dots> = x"
    using q [symmetric] by simp
  finally show ?thesis by (simp add: x_def)
qed

lemma double_round_of_int: "\<bar>k\<bar> < 2 ^ 53 \<Longrightarrow> double_round (of_int k) = of_int k"
  using double_round_representable [of k 0] by simp










lemma double_round_numeral [simp]:
  "\<bar>numeral n :: int\<bar> < 2 ^ 53 \<Longrightarrow> double_round (numeral n) = numeral n"
  using double_round_of_int [of "numeral n"] by simp

lemma double_round_eval:
  assumes "pow2 e \<le> \<bar>x\<bar>" and "\<bar>x\<bar> < pow2 (e + 1)" and "- 1022 \<le> e"
  shows "double_round x = of_int (round_even (x / pow2 (e - 52))) * pow2 (e - 52)"
proof -
  have "0 < pow2 e" by (rule pow2_pos)
  then have "0 < \<bar>x\<bar>" using assms(1) by linarith
  then have "x \<noteq> 0" by simp
  moreover have "ulp_exponent x = e - 52"
    using ulp_exponent_eq [OF assms(1,2)] assms(3) by simp
  ultimately show ?thesis by (simp add: double_round_def)
qed

lemma pow2_neg: "pow2 (- int n) = 1 / 2 ^ n"
proof -
  have "pow2 (- int n) * pow2 (int n) = 1" using pow2_add [of "- int n" "int n"] by simp
  then show ?thesis by (simp add: pow2_nat field_simps)
qed

lemma round_even_eval:
  assumes "of_int n - 1 / 2 < y" and "y < of_int n + 1 / 2"
  shows "round_even y = n"
proof -
  have "\<lfloor>y + 1 / 2\<rfloor> = n" using assms by (simp add: floor_eq_iff)
  moreover have "y - of_int \<lfloor>y\<rfloor> \<noteq> 1 / 2"
  proof
    assume h: "y - of_int \<lfloor>y\<rfloor> = 1 / 2"
    then have "y + 1 / 2 = of_int (\<lfloor>y\<rfloor> + 1)" by simp
    then have "\<lfloor>y + 1 / 2\<rfloor> = \<lfloor>y\<rfloor> + 1" by (metis floor_of_int)
    then have "of_int n = y + 1 / 2" using \<open>\<lfloor>y + 1 / 2\<rfloor> = n\<close> \<open>y + 1 / 2 = of_int (\<lfloor>y\<rfloor> + 1)\<close> by simp
    then show False using assms by simp
  qed
  ultimately show ?thesis by (simp add: round_even_def)
qed

lemma js_div_57_200: "js_div 57 200 = 5134103575202365 / 2 ^ 54"
proof -
  have p2: "pow2 (- 2) = 1 / 4" using pow2_neg [of 2] by simp
  have p1: "pow2 (- 1) = 1 / 2" using pow2_neg [of 1] by simp
  have p54: "pow2 (- 54) = 1 / 2 ^ 54" using pow2_neg [of 54] by simp
  have "double_round (57 / 200) = of_int (round_even (57 / 200 / pow2 (- 2 - 52))) * pow2 (- 2 - 52)"
    by (rule double_round_eval) (simp_all add: p2 p1)
  moreover have "round_even (57 / 200 / pow2 (- 54)) = 5134103575202365"
    by (rule round_even_eval) (simp_all add: p54)
  ultimately show ?thesis by (simp add: js_div_def p54)
qed

lemma js_mul_tie: "js_mul (5134103575202365 / 2 ^ 54) 100 = 8022036836253695 / 2 ^ 48"
proof -
  have p4: "pow2 4 = 16" using pow2_nat [of 4] by simp
  have p5: "pow2 5 = 32" using pow2_nat [of 5] by simp
  have p48: "pow2 (- 48) = 1 / 2 ^ 48" using pow2_neg [of 48] by simp
  have "double_round (5134103575202365 / 2 ^ 54 * 100)
      = of_int (round_even (5134103575202365 / 2 ^ 54 * 100 / pow2 (4 - 52))) * pow2 (4 - 52)"
    by (rule double_round_eval) (simp_all add: p4 p5)
  moreover have "round_even (5134103575202365 / 2 ^ 54 * 100 / pow2 (- 48)) = 8022036836253695"
    by (rule round_even_eval) (simp_all add: p48)
  ultimately show ?thesis by (simp add: js_mul_def p48)
qed


lemma is_double_0: "is_double 0"
  by (simp add: is_double_def double_round_def)

text \<open>
  At a tie of the exact percentage the double computation decides: 57 of 200 bytes is
  28.5 percent exactly, the quotient rounded to a double and multiplied by 100 is
  just below, and the display shows 28.
\<close>

lemma calculateRamDisplay_tie:
  "pct (calculateRamDisplay 57 200) = 28 \<and> round (57 / 200 * 100 :: real) = 29"
  by (simp only: calculateRamDisplay_def js_div_57_200 js_mul_tie)
    (simp add: Math_round_def round_def)

subsection \<open>Claim C9\<close>



section \<open>Properties of the page handlers\<close>

lemmas effect_defs = emit_def fetch_def new_events_def Let_def

lemmas example_defs = always_confirm_def never_confirm_def vms_a_def vms_b_def ok_with_def
  page_a_def page0_def form_disk_def form_cluster_only_def form_node_only_def
  form_cluster_and_node_def

lemmas handler_defs = loadVms_def loadVms_catch_def loadVms_response_def loadVms_p0_def
  loadVms_response_p0_def loadVms_v2_def loadVms_response_v2_def onClusterChange_def
  clusterSelect_change_def updateStats_def controlVm_def controlVm_response_def
  confirmDelete_def controlVm_p0_def controlVm_response_p0_def confirmDelete_p0_def
  handleVmCreate_finally_def handleVmCreate_catch_def handleVmCreate_def
  handleVmCreate_response_def handleVmCreate_v2_def handleVmCreate_response_v2_def
  handleVmCreate_p0_def handleVmCreate_response_p0_def closeConfigModal_def
  currentDiskSize_def configForm_submit_def configForm_submit_response_def
  configForm_onsubmit_v2_def configForm_onsubmit_response_v2_def deliver_def in_flight_def
  falsy_def render_throws_def

subsection \<open>What a response to \<open>loadVms\<close> leaves alone\<close>

lemma pending_loadVms_response:
  "pending (loadVms_response c r p) = pending p"
  by (simp add: loadVms_response_def loadVms_catch_def updateStats_def emit_def Let_def
      split: response.splits option.splits)

lemma clusterSelect_loadVms_response:
  "clusterSelect (loadVms_response c r p) = clusterSelect p"
  by (simp add: loadVms_response_def loadVms_catch_def updateStats_def emit_def Let_def
      split: response.splits option.splits)

lemma vmList_loadVms_response_ok:
  "vms_of data = Some vms \<Longrightarrow> vms \<noteq> [] \<Longrightarrow> \<not> render_throws (Some vms) \<Longrightarrow>
     vmList (loadVms_response c (HttpResponse True t (Some data)) p) = VmRows c vms"
  by (cases vms) (simp_all add: loadVms_response_def updateStats_def Let_def)

lemma pending_two_changes:
  "X \<noteq> [] \<Longrightarrow> Y \<noteq> [] \<Longrightarrow>
     pending (clusterSelect_change Y (clusterSelect_change X p))
       = pending p @ [(GetVms X, K_loadVms X), (GetVms Y, K_loadVms Y)] \<and>
     clusterSelect (clusterSelect_change Y (clusterSelect_change X p)) = Y"
  by (simp add: clusterSelect_change_def onClusterChange_def loadVms_def fetch_def Let_def)

subsection \<open>Claim C1\<close>

text \<open>
  Claim C1, as stated: every reconfigure submission with a requested disk size below
  the last-known one is rejected locally, and one above it is sent. The second document of
  dashboard.js sends the form without any disk check, so a request for 15 GB goes out
  where the current size is 20 GB; and in the first document a current size that parses
  to 0 is replaced by 20, so a request for 10 GB, above 0, is rejected as a shrink.
\<close>

theorem C1_disk_guard_counterexample:
  "currentDiskSize (page0\<lparr> currentSize := Some 20 \<rparr>) = 20 \<and>
   new_events (page0\<lparr> currentSize := Some 20 \<rparr>)
     (configForm_onsubmit_v2 (form_disk 15) (page0\<lparr> currentSize := Some 20 \<rparr>))
     = [Fetch (PostConfig (form_disk 15))] \<and>
   new_events (page0\<lparr> currentSize := Some 0 \<rparr>)
     (configForm_submit always_confirm (form_disk 10) (page0\<lparr> currentSize := Some 0 \<rparr>))
     = [Alert (DiskShrinkNotice 20 10)]"
  by (simp add: handler_defs effect_defs example_defs)

text \<open>
  Claim C1, amended: in the first document of dashboard.js, with C the last-known disk
  size as \<open>currentDiskSize\<close> gives it (the parsed value, or 20 when it is NaN or 0)
  and N the requested size parsed as an integer: N below C is rejected with the shrink
  notice, no request is sent and nothing is pending; N equal to C asks for a second
  confirmation and the request is sent only when the operator accepts; N above C is
  sent with no prompt. The second document sends every submission with no check.
\<close>

theorem C1_disk_guard:
  assumes "form_resize formData = Some N"
  shows "(N < currentDiskSize p \<longrightarrow>
            configForm_submit operator formData p = emit (Alert (DiskShrinkNotice (currentDiskSize p) N)) p \<and>
            network_calls (new_events p (configForm_submit operator formData p)) = [] \<and>
            pending (configForm_submit operator formData p) = pending p) \<and>
         (N = currentDiskSize p \<longrightarrow>
            new_events p (configForm_submit operator formData p) =
              Confirm (DiskUnchangedPrompt N) (operator (DiskUnchangedPrompt N)) #
                (if operator (DiskUnchangedPrompt N) then [Fetch (PostConfig formData)] else [])) \<and>
         (currentDiskSize p < N \<longrightarrow>
            new_events p (configForm_submit operator formData p) = [Fetch (PostConfig formData)]) \<and>
         new_events p (configForm_onsubmit_v2 formData p) = [Fetch (PostConfig formData)]"
  using assms
  by (simp add: configForm_submit_def configForm_onsubmit_v2_def effect_defs)

text \<open>
  The amended claim C1 at a current size of 20 GB, for requests of 15, 20 (declined)
  and 25 GB.
\<close>

theorem C1_disk_guard_witness:
  "configForm_submit never_confirm (form_disk 15) (page0\<lparr> currentSize := Some 20 \<rparr>)
     = emit (Alert (DiskShrinkNotice 20 15)) (page0\<lparr> currentSize := Some 20 \<rparr>) \<and>
   new_events (page0\<lparr> currentSize := Some 20 \<rparr>)
     (configForm_submit never_confirm (form_disk 20) (page0\<lparr> currentSize := Some 20 \<rparr>))
     = [Confirm (DiskUnchangedPrompt 20) False] \<and>
   new_events (page0\<lparr> currentSize := Some 20 \<rparr>)
     (configForm_submit never_confirm (form_disk 25) (page0\<lparr> currentSize := Some 20 \<rparr>))
     = [Fetch (PostConfig (form_disk 25))]"
  using C1_disk_guard [of "form_disk 15" 15 "page0\<lparr> currentSize := Some 20 \<rparr>" never_confirm]
    C1_disk_guard [of "form_disk 20" 20 "page0\<lparr> currentSize := Some 20 \<rparr>" never_confirm]
    C1_disk_guard [of "form_disk 25" 25 "page0\<lparr> currentSize := Some 20 \<rparr>" never_confirm]
  by (simp add: form_disk_def currentDiskSize_def page0_def never_confirm_def)

subsection \<open>Claim C2\<close>




subsection \<open>Claim C3\<close>

text \<open>
  Claim C3, as stated: when refresh A for cluster X is superseded by refresh B for
  cluster Y, the response of A is discarded even if it arrives after that of B. With
  cluster_a selected and then cluster_b, the list of cluster_b is shown after its
  response arrives, and the late response of cluster_a replaces it while cluster_b
  stays selected.
\<close>

theorem C3_superseded_refresh_counterexample:
  "vmList (deliver 1 (ok_with vms_b)
      (clusterSelect_change ''cluster_b'' (clusterSelect_change ''cluster_a'' page0)))
     = VmRows ''cluster_b'' vms_b \<and>
   vmList (deliver 0 (ok_with vms_a) (deliver 1 (ok_with vms_b)
      (clusterSelect_change ''cluster_b'' (clusterSelect_change ''cluster_a'' page0))))
     = VmRows ''cluster_a'' vms_a \<and>
   clusterSelect (deliver 0 (ok_with vms_a) (deliver 1 (ok_with vms_b)
      (clusterSelect_change ''cluster_b'' (clusterSelect_change ''cluster_a'' page0))))
     = ''cluster_b''"
  by (simp add: handler_defs effect_defs example_defs)

text \<open>
  Claim C3, amended: \<open>loadVms\<close> has no request sequence number and does not compare
  a response with the selection: when refresh A was issued for cluster X and the
  selection then switched to Y issuing refresh B, and the response of A arrives after
  that of B with a non-empty list that renders (every VM with a numeric cpu), the
  visible list is the one of X, under the selection Y, whatever the response of B was.
\<close>

theorem C3_last_arrival_wins:
  assumes "X \<noteq> []" and "Y \<noteq> []" and "vms_of dataA = Some vmsA" and "vmsA \<noteq> []"
    and "\<not> render_throws (Some vmsA)"
    and "p2 = clusterSelect_change Y (clusterSelect_change X p)"
    and "rA = HttpResponse True tA (Some dataA)"
  shows "vmList (deliver (length (pending p)) rA (deliver (Suc (length (pending p))) rB p2))
           = VmRows X vmsA \<and>
         clusterSelect (deliver (length (pending p)) rA (deliver (Suc (length (pending p))) rB p2))
           = Y"
proof -
  let ?n = "length (pending p)"
  have pend: "pending p2 = pending p @ [(GetVms X, K_loadVms X), (GetVms Y, K_loadVms Y)]"
    and sel: "clusterSelect p2 = Y"
    using pending_two_changes [OF assms(1,2)] assms(6) by simp_all
  define q where "q = p2\<lparr> pending := pending p @ [(GetVms X, K_loadVms X)] \<rparr>"
  have first: "deliver (Suc ?n) rB p2 = loadVms_response Y rB q"
    by (simp add: deliver_def pend q_def nth_append)
  let ?p3 = "loadVms_response Y rB q"
  have pend3: "pending ?p3 = pending p @ [(GetVms X, K_loadVms X)]"
    by (simp add: pending_loadVms_response q_def)
  have sel3: "clusterSelect ?p3 = Y"
    by (simp add: clusterSelect_loadVms_response q_def sel)
  have second: "deliver ?n rA ?p3 = loadVms_response X rA (?p3\<lparr> pending := pending p \<rparr>)"
    by (simp add: deliver_def pend3 nth_append)
  show ?thesis
    unfolding first second
    using vmList_loadVms_response_ok [OF assms(3,4,5)] sel3
    by (simp add: assms(7) clusterSelect_loadVms_response)
qed

text \<open>
  The amended claim C3 with cluster_a, then cluster_b, the refresh of cluster_b failing.
\<close>

theorem C3_last_arrival_wins_witness:
  "\<not> render_throws (Some vms_a) \<and>
   vmList (deliver 0 (ok_with vms_a) (deliver 1 (NetworkError ''reset'')
      (clusterSelect_change ''cluster_b'' (clusterSelect_change ''cluster_a'' page0))))
     = VmRows ''cluster_a'' vms_a \<and>
   clusterSelect (deliver 0 (ok_with vms_a) (deliver 1 (NetworkError ''reset'')
      (clusterSelect_change ''cluster_b'' (clusterSelect_change ''cluster_a'' page0))))
     = ''cluster_b''"
  using C3_last_arrival_wins [of "''cluster_a''" "''cluster_b''" "JsonVmsObject vms_a" vms_a
      "clusterSelect_change ''cluster_b'' (clusterSelect_change ''cluster_a'' page0)" page0
      "ok_with vms_a" "[]" "NetworkError ''reset''"]
  by (simp add: ok_with_def vms_a_def page0_def render_throws_def)

subsection \<open>Claim C4\<close>

text \<open>
  Claim C4 says that a delete shows exactly one confirmation prompt and is never
  confirmed again after the caller has confirmed. The older script breaks it: its
  \<open>controlVm\<close> prompts for every action, so whenever the operator accepts the
  prompt of \<open>confirmDelete\<close>, with the warning when the status is running, a second
  prompt follows before the network call, and the request is sent only when that is
  accepted too.
\<close>

theorem C4_part000_delete_confirmed_twice:
  assumes "m = (if status = ''running'' then DeleteRunningWarningThenPrompt name v
                else DeletePrompt name v)"
    and "operator m"
  shows "prompts (new_events p (confirmDelete_p0 operator n v name status p))
           = [m, ControlPrompt v Delete] \<and>
         network_calls (new_events p (confirmDelete_p0 operator n v name status p))
           = (if operator (ControlPrompt v Delete) then [PostControl Delete None n v] else [])"
  using assms
  by (simp add: confirmDelete_p0_def controlVm_p0_def effect_defs)

text \<open>
  Claim C4 in the older script for the running VM 101 and an operator who accepts
  everything: two prompts, then the network call.
\<close>

theorem C4_part000_delete_confirmed_twice_witness:
  "always_confirm (DeleteRunningWarningThenPrompt ''web'' 101) \<and>
   new_events page0 (confirmDelete_p0 always_confirm ''pve1'' 101 ''web'' ''running'' page0)
     = [Confirm (DeleteRunningWarningThenPrompt ''web'' 101) True,
        Confirm (ControlPrompt 101 Delete) True,
        Fetch (PostControl Delete None ''pve1'' 101)] \<and>
   prompts (new_events page0 (confirmDelete_p0 always_confirm ''pve1'' 101 ''web'' ''running'' page0))
     = [DeleteRunningWarningThenPrompt ''web'' 101, ControlPrompt 101 Delete]"
  using C4_part000_delete_confirmed_twice [of "DeleteRunningWarningThenPrompt ''web'' 101"
      "''running''" "''web''" 101 always_confirm page0 "''pve1''"]
  by (simp add: handler_defs effect_defs example_defs)

text \<open>
  dashboard.js does what the claim says: \<open>controlVm\<close> skips its prompt for a delete,
  so \<open>confirmDelete\<close> shows exactly one prompt, with the data-loss warning when the
  status is running; a declined delete changes nothing else; a confirmed delete performs
  one network call, and a successful one is followed by one call of \<open>loadVms\<close>,
  which fetches the list of the selected cluster.
\<close>

lemma confirmDelete_prompts_once:
  assumes "m = (if status = ''running'' then DeleteRunningWarning name else DeletePrompt name v)"
  shows "prompts (new_events p (confirmDelete operator c n v name status p)) = [m] \<and>
    prompts (new_events p (controlVm operator c n v Delete p)) = [] \<and>
    (\<not> operator m \<longrightarrow>
       confirmDelete operator c n v name status p = p\<lparr> trace := trace p @ [Confirm m False] \<rparr>) \<and>
    (operator m \<longrightarrow>
       new_events p (deliver (length (pending p)) (HttpResponse True t js)
           (confirmDelete operator c n v name status p))
         = [Confirm m True, Fetch (PostControl Delete (Some c) n v), Alert (ControlDone Delete),
            if clusterSelect p = [] then ConsoleLog_skip else Fetch (GetVms (clusterSelect p))])"
  using assms
  by (simp add: confirmDelete_def controlVm_def controlVm_response_def loadVms_def deliver_def
      effect_defs)

subsection \<open>Claim C5\<close>

text \<open>
  Claim C5, as stated: a create request reaches the network only when both the cluster
  and the target node are non-empty. The first document of dashboard.js, where the
  backend chooses the node, sends a form with a cluster and no node; the older script,
  which knows no clusters, sends a form with a node and no cluster.
\<close>

theorem C5_create_fields_counterexample:
  "falsy (form_cluster_only ''node_zone'') \<and>
   network_calls (new_events page_a (handleVmCreate form_cluster_only page_a))
     = [PostCreate form_cluster_only] \<and>
   falsy (form_node_only ''cluster_name'') \<and>
   network_calls (new_events page0 (handleVmCreate_p0 form_node_only page0))
     = [PostCreate form_node_only]"
  by (simp add: handler_defs effect_defs example_defs)

text \<open>
  Claim C5, amended: a submission while a creation is running is ignored; otherwise
  the second document of dashboard.js requires the cluster and then the node, failing
  locally with the matching notice and sending the request only when both are non-empty;
  the first document requires only the cluster, the older script only the node, and
  neither sends a request when its required field is missing.
\<close>

theorem C5_create_required_fields:
  "(isCreating p \<longrightarrow>
      handleVmCreate formData p = p \<and> handleVmCreate_v2 formData p = p \<and>
      handleVmCreate_p0 formData p = p) \<and>
   (\<not> isCreating p \<longrightarrow>
      new_events p (handleVmCreate_v2 formData p)
        = (if falsy (formData ''cluster_name'') then [Alert (CreateError Thrown_cluster_required)]
           else if falsy (formData ''node_zone'') then [Alert (CreateError Thrown_node_required)]
           else [Fetch (PostCreate formData)]) \<and>
      network_calls (new_events p (handleVmCreate formData p))
        = (if falsy (formData ''cluster_name'') then [] else [PostCreate formData]) \<and>
      network_calls (new_events p (handleVmCreate_p0 formData p))
        = (if falsy (formData ''node_zone'') then [] else [PostCreate formData]))"
  by (simp add: handleVmCreate_def handleVmCreate_v2_def handleVmCreate_p0_def
      handleVmCreate_finally_def handleVmCreate_catch_def effect_defs)

text \<open>
  The amended claim C5 for the second document: a form without node, without
  cluster, a complete form, and a complete form while a creation is running.
\<close>

theorem C5_create_required_fields_witness:
  "new_events page_a (handleVmCreate_v2 form_cluster_only page_a)
     = [Alert (CreateError Thrown_node_required)] \<and>
   new_events page_a (handleVmCreate_v2 form_node_only page_a)
     = [Alert (CreateError Thrown_cluster_required)] \<and>
   new_events page_a (handleVmCreate_v2 form_cluster_and_node page_a)
     = [Fetch (PostCreate form_cluster_and_node)] \<and>
   handleVmCreate_v2 form_cluster_and_node (page_a\<lparr> isCreating := True \<rparr>)
     = page_a\<lparr> isCreating := True \<rparr>"
  using C5_create_required_fields [of page_a form_cluster_only] C5_create_required_fields [of page_a form_node_only]
    C5_create_required_fields [of page_a form_cluster_and_node]
    C5_create_required_fields [of "page_a\<lparr> isCreating := True \<rparr>" form_cluster_and_node]
  by (simp add: falsy_def form_cluster_only_def form_node_only_def form_cluster_and_node_def
      page_a_def page0_def)

subsection \<open>Claim C6\<close>

text \<open>
  Claim C6, as stated: after a failed refresh the prior snapshot is retained and shown
  with a stale indicator, and an error is surfaced to the view. In dashboard.js the list
  of cluster_a that was shown is replaced by the failure notice; in the older script the
  list stays as it was and the failure is only reported to the console.
\<close>

theorem C6_failed_refresh_counterexample:
  "vmList (loadVms (deliver 0 (ok_with vms_a) (clusterSelect_change ''cluster_a'' page0)))
     = VmRows ''cluster_a'' vms_a \<and>
   vmList (deliver 0 (NetworkError ''Failed to fetch'')
      (loadVms (deliver 0 (ok_with vms_a) (clusterSelect_change ''cluster_a'' page0))))
     = LoadFailedNotice \<and>
   vmList (deliver 0 (NetworkError ''Failed to fetch'')
      (loadVms_p0 (deliver 0 (ok_with vms_a) (loadVms_p0 page0))))
     = VmRows_p0 vms_a \<and>
   new_events (loadVms_p0 (deliver 0 (ok_with vms_a) (loadVms_p0 page0)))
     (deliver 0 (NetworkError ''Failed to fetch'')
      (loadVms_p0 (deliver 0 (ok_with vms_a) (loadVms_p0 page0))))
     = [ConsoleError (Thrown_network ''Failed to fetch'')]"
  by (simp add: handler_defs effect_defs example_defs)

text \<open>
  Claim C6, amended: no version retries a failed refresh or marks data as stale. In the
  first document of dashboard.js every failure (a rejected fetch, a response that is not
  ok, a body that is not JSON, a list that does not render) replaces the VM list that
  was shown by a load-failure notice, leaves the statistics as they were and is reported
  to the console. The second document and the older script do not check \<open>res.ok\<close>:
  for a rejected fetch or a body that is not JSON the second document does the same as
  the first, while the older script leaves list and statistics as they were, unmarked,
  with the report on the console only; a response that is not ok with a JSON body is
  not taken for a failure at all but handled like a successful one, so that an error
  object shows the notice of an empty list and sets the statistics to zero, with no
  report.
\<close>

theorem C6_failed_refresh:
  assumes "i < length (pending p)"
  shows "(snd (pending p ! i) = K_loadVms c \<and> refresh_fails r \<longrightarrow>
       vmList (deliver i r p) = LoadFailedNotice \<and>
       counts (deliver i r p) = counts p \<and>
       (\<exists>x. new_events p (deliver i r p) = [ConsoleError x]) \<and>
       pending (deliver i r p) = take i (pending p) @ drop (Suc i) (pending p)) \<and>
    (snd (pending p ! i) = K_loadVms_v2 c \<and> (r = NetworkError e \<or> r = HttpResponse ok t None) \<longrightarrow>
       vmList (deliver i r p) = LoadFailedNotice \<and>
       counts (deliver i r p) = counts p \<and>
       (\<exists>x. new_events p (deliver i r p) = [ConsoleError x]) \<and>
       pending (deliver i r p) = take i (pending p) @ drop (Suc i) (pending p)) \<and>
    (snd (pending p ! i) = K_loadVms_p0 \<and> (r = NetworkError e \<or> r = HttpResponse ok t None) \<longrightarrow>
       vmList (deliver i r p) = vmList p \<and>
       counts (deliver i r p) = counts p \<and>
       (\<exists>x. new_events p (deliver i r p) = [ConsoleError x]) \<and>
       pending (deliver i r p) = take i (pending p) @ drop (Suc i) (pending p)) \<and>
    (snd (pending p ! i) = K_loadVms_v2 c \<or> snd (pending p ! i) = K_loadVms_p0 \<longrightarrow>
       deliver i (HttpResponse False t (Some data)) p
         = deliver i (HttpResponse True t (Some data)) p \<and>
       vmList (deliver i (HttpResponse False t (Some JsonOther)) p) = NoVmsNotice \<and>
       counts (deliver i (HttpResponse False t (Some JsonOther)) p)
         = \<lparr> total_vms = 0, running_vms = 0, stopped_vms = 0 \<rparr> \<and>
       new_events p (deliver i (HttpResponse False t (Some JsonOther)) p) = [] \<and>
       pending (deliver i (HttpResponse False t (Some JsonOther)) p)
         = take i (pending p) @ drop (Suc i) (pending p))"
proof -
  have v1: "refresh_fails r \<Longrightarrow>
      \<exists>x. loadVms_response c r q = (emit (ConsoleError x) q)\<lparr> vmList := LoadFailedNotice \<rparr>" for q
    by (cases r rule: refresh_fails.cases)
      (auto simp: loadVms_response_def loadVms_catch_def Let_def)
  have first: "snd (pending p ! i) = K_loadVms c \<and> refresh_fails r \<longrightarrow>
       vmList (deliver i r p) = LoadFailedNotice \<and>
       counts (deliver i r p) = counts p \<and>
       (\<exists>x. new_events p (deliver i r p) = [ConsoleError x]) \<and>
       pending (deliver i r p) = take i (pending p) @ drop (Suc i) (pending p)"
  proof (intro impI, elim conjE)
    assume k: "snd (pending p ! i) = K_loadVms c" and f: "refresh_fails r"
    obtain x where "loadVms_response c r (p\<lparr> pending := take i (pending p) @ drop (Suc i) (pending p) \<rparr>)
        = (emit (ConsoleError x) (p\<lparr> pending := take i (pending p) @ drop (Suc i) (pending p) \<rparr>))
            \<lparr> vmList := LoadFailedNotice \<rparr>"
      using v1 [OF f] by blast
    then show "vmList (deliver i r p) = LoadFailedNotice \<and>
       counts (deliver i r p) = counts p \<and>
       (\<exists>x. new_events p (deliver i r p) = [ConsoleError x]) \<and>
       pending (deliver i r p) = take i (pending p) @ drop (Suc i) (pending p)"
      using assms k by (simp add: deliver_def emit_def new_events_def)
  qed
  have rest: "(snd (pending p ! i) = K_loadVms_v2 c \<and> (r = NetworkError e \<or> r = HttpResponse ok t None) \<longrightarrow>
       vmList (deliver i r p) = LoadFailedNotice \<and>
       counts (deliver i r p) = counts p \<and>
       (\<exists>x. new_events p (deliver i r p) = [ConsoleError x]) \<and>
       pending (deliver i r p) = take i (pending p) @ drop (Suc i) (pending p)) \<and>
    (snd (pending p ! i) = K_loadVms_p0 \<and> (r = NetworkError e \<or> r = HttpResponse ok t None) \<longrightarrow>
       vmList (deliver i r p) = vmList p \<and>
       counts (deliver i r p) = counts p \<and>
       (\<exists>x. new_events p (deliver i r p) = [ConsoleError x]) \<and>
       pending (deliver i r p) = take i (pending p) @ drop (Suc i) (pending p))"
    using assms
    by (auto simp: deliver_def loadVms_response_v2_def loadVms_response_p0_def loadVms_catch_def
        emit_def new_events_def)
  have no_ok_check: "snd (pending p ! i) = K_loadVms_v2 c \<or> snd (pending p ! i) = K_loadVms_p0 \<longrightarrow>
       deliver i (HttpResponse False t (Some data)) p
         = deliver i (HttpResponse True t (Some data)) p \<and>
       vmList (deliver i (HttpResponse False t (Some JsonOther)) p) = NoVmsNotice \<and>
       counts (deliver i (HttpResponse False t (Some JsonOther)) p)
         = \<lparr> total_vms = 0, running_vms = 0, stopped_vms = 0 \<rparr> \<and>
       new_events p (deliver i (HttpResponse False t (Some JsonOther)) p) = [] \<and>
       pending (deliver i (HttpResponse False t (Some JsonOther)) p)
         = take i (pending p) @ drop (Suc i) (pending p)"
    using assms
    by (auto simp: deliver_def loadVms_response_v2_def loadVms_response_p0_def updateStats_def
        new_events_def Let_def)
  show ?thesis using first rest no_ok_check by blast
qed

text \<open>
  The amended claim C6 after a first refresh showed one VM: in dashboard.js a refresh
  of cluster_a that the backend answers with an error, and in the older script one
  answered with an error that is not JSON, and one answered with an error object.
\<close>

theorem C6_failed_refresh_witness:
  "vmList (deliver 0 (HttpResponse False ''boom'' None)
      (loadVms (deliver 0 (ok_with vms_a) (clusterSelect_change ''cluster_a'' page0))))
     = LoadFailedNotice \<and>
   total_vms (counts (deliver 0 (HttpResponse False ''boom'' None)
      (loadVms (deliver 0 (ok_with vms_a) (clusterSelect_change ''cluster_a'' page0))))) = 1 \<and>
   pending (deliver 0 (HttpResponse False ''boom'' None)
      (loadVms (deliver 0 (ok_with vms_a) (clusterSelect_change ''cluster_a'' page0)))) = [] \<and>
   vmList (deliver 0 (HttpResponse False ''boom'' None)
      (loadVms_p0 (deliver 0 (ok_with vms_a) (loadVms_p0 page0))))
     = VmRows_p0 vms_a \<and>
   vmList (deliver 0 (HttpResponse False ''boom'' (Some JsonOther))
      (loadVms_p0 (deliver 0 (ok_with vms_a) (loadVms_p0 page0))))
     = NoVmsNotice \<and>
   total_vms (counts (deliver 0 (HttpResponse False ''boom'' (Some JsonOther))
      (loadVms_p0 (deliver 0 (ok_with vms_a) (loadVms_p0 page0))))) = 0"
  using C6_failed_refresh [of 0 "loadVms (deliver 0 (ok_with vms_a) (clusterSelect_change ''cluster_a'' page0))"
      "''cluster_a''" "HttpResponse False ''boom'' None"]
    C6_failed_refresh [of 0 "loadVms_p0 (deliver 0 (ok_with vms_a) (loadVms_p0 page0))"
      "[]" "HttpResponse False ''boom'' None" "[]" False "''boom''"]
  by (simp add: handler_defs effect_defs example_defs render_throws_def)

subsection \<open>Claim C10\<close>

text \<open>
  Claim C10: for a start or a shutdown, \<open>controlVm\<close> (of dashboard.js and of the
  older script) first shows the confirmation prompt, and when the operator declines it
  returns with no network request and the page unchanged but for the recorded prompt.
\<close>

theorem C10_control_prompt_declined:
  assumes "action = Start \<or> action = Shutdown" and "m = ControlPrompt v action"
  shows "take 1 (new_events p (controlVm operator c n v action p)) = [Confirm m (operator m)] \<and>
    take 1 (new_events p (controlVm_p0 operator n v action p)) = [Confirm m (operator m)] \<and>
    (\<not> operator m \<longrightarrow>
       controlVm operator c n v action p = p\<lparr> trace := trace p @ [Confirm m False] \<rparr> \<and>
       controlVm_p0 operator n v action p = p\<lparr> trace := trace p @ [Confirm m False] \<rparr> \<and>
       network_calls (new_events p (controlVm operator c n v action p)) = [] \<and>
       network_calls (new_events p (controlVm_p0 operator n v action p)) = [])"
  using assms
  by (auto simp: controlVm_def controlVm_p0_def effect_defs)

text \<open>
  Claim C10 for a declined start and an accepted shutdown of VM 101.
\<close>

theorem C10_control_prompt_declined_witness:
  "controlVm never_confirm ''cluster_a'' ''pve1'' 101 Start page_a
     = page_a\<lparr> trace := [Confirm (ControlPrompt 101 Start) False] \<rparr> \<and>
   take 1 (new_events page_a (controlVm always_confirm ''cluster_a'' ''pve1'' 101 Shutdown page_a))
     = [Confirm (ControlPrompt 101 Shutdown) True]"
  using C10_control_prompt_declined [of Start "ControlPrompt 101 Start" 101 page_a never_confirm "''cluster_a''" "''pve1''"]
    C10_control_prompt_declined [of Shutdown "ControlPrompt 101 Shutdown" 101 page_a always_confirm "''cluster_a''" "''pve1''"]
  by (simp add: never_confirm_def always_confirm_def page_a_def page0_def)

end
